theory Spec2Isabelle
  imports Complex_Main "HOL-Library.Multiset" "HOL-Library.Log_Nat"
begin

section \<open>Brinson performance attribution: the notebook on portfolio evaluation\<close>

subsection \<open>Data model\<close>

text \<open>
  The notebook keeps the segments in a pandas DataFrame indexed by \<^verbatim>\<open>AssetClass\<close> with the
  four numeric columns \<^verbatim>\<open>w_p\<close>, \<^verbatim>\<open>r_p\<close>, \<^verbatim>\<open>w_b\<close>, \<^verbatim>\<open>r_b\<close>. A DataFrame is rectangular, so it
  is modelled as the list of its rows, in index order; a row is a record with the index
  label and the four cells.

  The numbers are given two readings. In the first, used wherever a property is about the
  formulas or is stated for exact arithmetic, a Python float is an exact real and
  \<open>brinson_decomposition\<close> computes without rounding. In the second, further down, a float
  is an IEEE 754 double and \<open>brinson_decomposition_f64\<close> rounds after every operation, as
  the notebook does; it is used to evaluate what the code returns on concrete frames.
\<close>

record SegmentRecord =
  AssetClass :: string
  w_p :: real
  r_p :: real
  w_b :: real
  r_b :: real

type_synonym DataFrame = "SegmentRecord list"

text \<open>A pandas Series of numbers is the list of its values, in index order.\<close>

type_synonym Series = "real list"

text \<open>\<^verbatim>\<open>df['c']\<close>: the column \<open>c\<close> of the frame.\<close>

definition col :: "(SegmentRecord \<Rightarrow> real) \<Rightarrow> DataFrame \<Rightarrow> Series" where
  "col c df = map c df"

text \<open>
  \<^verbatim>\<open>a * b\<close> and \<^verbatim>\<open>a - b\<close> on two Series taken from the same frame: their indexes are
  equal, so pandas combines them position by position.
\<close>

definition series_mul :: "Series \<Rightarrow> Series \<Rightarrow> Series" where
  "series_mul a b = map2 (*) a b"

definition series_sub :: "Series \<Rightarrow> Series \<Rightarrow> Series" where
  "series_sub a b = map2 (-) a b"

text \<open>\<^verbatim>\<open>s.sum()\<close>: the sum of the values, 0 for the empty Series.\<close>

definition series_sum :: "Series \<Rightarrow> real" where
  "series_sum a = sum_list a"

text \<open>
  The dictionary returned by \<^verbatim>\<open>brinson_decomposition\<close>, with its six fixed keys
  \<^verbatim>\<open>'Portfolio Return'\<close>, \<^verbatim>\<open>'Benchmark Return'\<close>, \<^verbatim>\<open>'Asset Allocation'\<close>, \<^verbatim>\<open>'Selection'\<close>,
  \<^verbatim>\<open>'Interaction'\<close> and \<^verbatim>\<open>'Total Difference'\<close>.
\<close>

record AttributionResult =
  portfolio_return :: real
  benchmark_return :: real
  asset_allocation :: real
  selection :: real
  interaction :: real
  total_difference :: real

subsection \<open>The decomposition\<close>

text \<open>
  \<^verbatim>\<open>
  def brinson_decomposition(df):
      r_p = (df['w_p'] * df['r_p']).sum()
      r_b = (df['w_b'] * df['r_b']).sum()
      asset_allocation = ((df['w_p'] - df['w_b']) * df['r_b']).sum()
      selection = (df['w_b'] * (df['r_p'] - df['r_b'])).sum()
      interaction = ((df['w_p'] - df['w_b']) * (df['r_p'] - df['r_b'])).sum()
      total_diff = r_p - r_b
      return {'Portfolio Return': r_p, 'Benchmark Return': r_b,
              'Asset Allocation': asset_allocation, 'Selection': selection,
              'Interaction': interaction, 'Total Difference': total_diff}
  \<close>
  The local names \<^verbatim>\<open>r_p\<close> and \<^verbatim>\<open>r_b\<close> of the source are the column selectors here, so the
  two totals are bound as \<open>tot_p\<close> and \<open>tot_b\<close>.
\<close>

definition brinson_decomposition :: "DataFrame \<Rightarrow> AttributionResult" where
  "brinson_decomposition df =
     (let tot_p = series_sum (series_mul (col w_p df) (col r_p df));
          tot_b = series_sum (series_mul (col w_b df) (col r_b df));
          asset_allocation' =
            series_sum (series_mul (series_sub (col w_p df) (col w_b df)) (col r_b df));
          selection' =
            series_sum (series_mul (col w_b df) (series_sub (col r_p df) (col r_b df)));
          interaction' =
            series_sum (series_mul (series_sub (col w_p df) (col w_b df))
                                   (series_sub (col r_p df) (col r_b df)));
          total_diff = tot_p - tot_b
      in \<lparr>portfolio_return = tot_p,
          benchmark_return = tot_b,
          asset_allocation = asset_allocation',
          selection = selection',
          interaction = interaction',
          total_difference = total_diff\<rparr>)"

text \<open>
  The outcome of a call, with a raised exception as a value. The body of
  \<^verbatim>\<open>brinson_decomposition\<close> has no \<^verbatim>\<open>raise\<close>, no assertion and no test on its argument, and
  every pandas operation it uses is defined on the empty frame, so a call on a frame with
  the four columns always returns its dictionary.
\<close>

datatype error = InvalidInput

definition decompose :: "DataFrame \<Rightarrow> error + AttributionResult" where
  "decompose df = Inr (brinson_decomposition df)"

subsection \<open>The example frame of the notebook\<close>

text \<open>
  \<^verbatim>\<open>
  data = {'AssetClass': ['Equity', 'Bond', 'RealEstate'],
          'w_p': [0.60, 0.30, 0.10], 'r_p': [0.10, 0.02, 0.08],
          'w_b': [0.50, 0.40, 0.10], 'r_b': [0.08, 0.03, 0.07]}
  df_brinson = pd.DataFrame(data).set_index('AssetClass')
  \<close>
\<close>

definition df_brinson :: DataFrame where
  "df_brinson =
     [\<lparr>AssetClass = ''Equity'', w_p = 0.60, r_p = 0.10, w_b = 0.50, r_b = 0.08\<rparr>,
      \<lparr>AssetClass = ''Bond'', w_p = 0.30, r_p = 0.02, w_b = 0.40, r_b = 0.03\<rparr>,
      \<lparr>AssetClass = ''RealEstate'', w_p = 0.10, r_p = 0.08, w_b = 0.10, r_b = 0.07\<rparr>]"


subsection \<open>The specification's formulas\<close>

text \<open>
  The specification gives the result per segment \<open>i\<close>, summed over all \<open>i\<close>:
  portfolio return = \<open>\<Sum> w_p_i * r_p_i\<close>, benchmark return = \<open>\<Sum> w_b_i * r_b_i\<close>,
  asset allocation = \<open>\<Sum> (w_p_i - w_b_i) * r_b_i\<close>, selection = \<open>\<Sum> w_b_i * (r_p_i - r_b_i)\<close>,
  interaction = \<open>\<Sum> (w_p_i - w_b_i) * (r_p_i - r_b_i)\<close>, and total difference =
  portfolio return - benchmark return. \<open>spec_decompose\<close> is written from these words, not
  from the code, to be compared with \<open>brinson_decomposition\<close>.
\<close>

definition spec_decompose :: "SegmentRecord list \<Rightarrow> AttributionResult" where
  "spec_decompose segments =
     \<lparr>portfolio_return = (\<Sum>s\<leftarrow>segments. w_p s * r_p s),
      benchmark_return = (\<Sum>s\<leftarrow>segments. w_b s * r_b s),
      asset_allocation = (\<Sum>s\<leftarrow>segments. (w_p s - w_b s) * r_b s),
      selection = (\<Sum>s\<leftarrow>segments. w_b s * (r_p s - r_b s)),
      interaction = (\<Sum>s\<leftarrow>segments. (w_p s - w_b s) * (r_p s - r_b s)),
      total_difference =
        (\<Sum>s\<leftarrow>segments. w_p s * r_p s) - (\<Sum>s\<leftarrow>segments. w_b s * r_b s)\<rparr>"


subsection \<open>Column arithmetic as sums over the rows\<close>

subsection \<open>The same computation in double precision\<close>

text \<open>
  A finite IEEE 754 double is \<open>m * 2 ^ e\<close> for integers \<open>m\<close> and \<open>e\<close> with \<open>\<bar>m\<bar> < 2 ^ 53\<close>;
  \<open>F64 m e\<close> stands for that value, and \<open>f64_val\<close> reads it. Several pairs stand for one
  value, so doubles are compared through \<open>f64_val\<close>. The exponent is not bounded here: NaN,
  infinities, overflow and subnormal numbers are left out, the cells of the frames below
  lying between 0.02 and 0.6.
\<close>

datatype f64 = F64 int int

fun f64_val :: "f64 \<Rightarrow> real" where
  "f64_val (F64 m e) = (if 0 \<le> e then of_int m * 2 ^ nat e else of_int m / 2 ^ nat (- e))"

text \<open>
  \<open>rne_shift m k\<close> is \<open>m / 2 ^ k\<close> rounded to the nearest integer, a tie going to the even
  neighbour: the rounding mode of Python's float arithmetic.
\<close>

definition rne_shift :: "int \<Rightarrow> nat \<Rightarrow> int" where
  "rne_shift m k =
     (let q = m div 2 ^ k; r = m mod 2 ^ k
      in if 2 * r < 2 ^ k then q
         else if 2 ^ k < 2 * r then q + 1
         else if even q then q else q + 1)"

text \<open>
  \<open>f64_round m e\<close> is the double nearest to the exact value \<open>m * 2 ^ e\<close>: a mantissa of at
  most 53 bits is kept as it is, a longer one loses its excess bits in one rounding step.
\<close>

definition f64_round :: "int \<Rightarrow> int \<Rightarrow> f64" where
  "f64_round m e =
     (let k = bitlen \<bar>m\<bar> - 53
      in if k \<le> 0 then F64 m e else F64 (rne_shift m (nat k)) (e + k))"

text \<open>
  The float operations \<^verbatim>\<open>+\<close>, \<^verbatim>\<open>-\<close> and \<^verbatim>\<open>*\<close>: the exact sum, difference or product of the
  two values, rounded once.
\<close>

fun f64_add :: "f64 \<Rightarrow> f64 \<Rightarrow> f64" where
  "f64_add (F64 m1 e1) (F64 m2 e2) =
     (let e = min e1 e2
      in f64_round (m1 * 2 ^ nat (e1 - e) + m2 * 2 ^ nat (e2 - e)) e)"

fun f64_sub :: "f64 \<Rightarrow> f64 \<Rightarrow> f64" where
  "f64_sub (F64 m1 e1) (F64 m2 e2) =
     (let e = min e1 e2
      in f64_round (m1 * 2 ^ nat (e1 - e) - m2 * 2 ^ nat (e2 - e)) e)"

fun f64_mul :: "f64 \<Rightarrow> f64 \<Rightarrow> f64" where
  "f64_mul (F64 m1 e1) (F64 m2 e2) = f64_round (m1 * m2) (e1 + e2)"

text \<open>
  A decimal literal of the notebook, such as \<^verbatim>\<open>0.60\<close>, is the double nearest to the
  fraction it denotes. \<open>f64_of_ratio p q\<close> is that double for the fraction \<open>p / q\<close> with
  \<open>0 \<le> p\<close> and \<open>0 < q\<close>: the quotient is taken to at least 55 bits, one more bit records
  whether the division left a remainder, and the result is rounded once.
\<close>

definition f64_of_ratio :: "int \<Rightarrow> int \<Rightarrow> f64" where
  "f64_of_ratio p q =
     (let k = nat (max 0 (55 + bitlen q - bitlen p));
          n = (p * 2 ^ k) div q;
          r = (p * 2 ^ k) mod q;
          s = 2 * n + (if r = 0 then 0 else 1)
      in f64_round s (- int k - 1))"

text \<open>The frame, its columns and the result, with doubles in the cells.\<close>

record SegmentRecord64 =
  AssetClass64 :: string
  w_p64 :: f64
  r_p64 :: f64
  w_b64 :: f64
  r_b64 :: f64

type_synonym DataFrame64 = "SegmentRecord64 list"

type_synonym Series64 = "f64 list"

definition col64 :: "(SegmentRecord64 \<Rightarrow> f64) \<Rightarrow> DataFrame64 \<Rightarrow> Series64" where
  "col64 c df = map c df"

definition series_mul64 :: "Series64 \<Rightarrow> Series64 \<Rightarrow> Series64" where
  "series_mul64 a b = map2 f64_mul a b"

definition series_sub64 :: "Series64 \<Rightarrow> Series64 \<Rightarrow> Series64" where
  "series_sub64 a b = map2 f64_sub a b"

text \<open>
  \<^verbatim>\<open>s.sum()\<close> on a float column: starting from 0.0, the values are added one after the
  other in index order, each addition rounded. This is the order in which numpy adds a
  column of fewer than 8 values; for longer columns numpy adds in blocks, which this
  definition does not follow. The frames evaluated below have two and three rows.
\<close>

definition series_sum64 :: "Series64 \<Rightarrow> f64" where
  "series_sum64 a = foldl f64_add (F64 0 0) a"

record AttributionResult64 =
  portfolio_return64 :: f64
  benchmark_return64 :: f64
  asset_allocation64 :: f64
  selection64 :: f64
  interaction64 :: f64
  total_difference64 :: f64

text \<open>The body of \<^verbatim>\<open>brinson_decomposition\<close> once more, line by line, on doubles.\<close>

definition brinson_decomposition_f64 :: "DataFrame64 \<Rightarrow> AttributionResult64" where
  "brinson_decomposition_f64 df =
     (let tot_p = series_sum64 (series_mul64 (col64 w_p64 df) (col64 r_p64 df));
          tot_b = series_sum64 (series_mul64 (col64 w_b64 df) (col64 r_b64 df));
          asset_allocation' =
            series_sum64 (series_mul64 (series_sub64 (col64 w_p64 df) (col64 w_b64 df))
                                       (col64 r_b64 df));
          selection' =
            series_sum64 (series_mul64 (col64 w_b64 df)
                                       (series_sub64 (col64 r_p64 df) (col64 r_b64 df)));
          interaction' =
            series_sum64 (series_mul64 (series_sub64 (col64 w_p64 df) (col64 w_b64 df))
                                       (series_sub64 (col64 r_p64 df) (col64 r_b64 df)));
          total_diff = f64_sub tot_p tot_b
      in \<lparr>portfolio_return64 = tot_p,
          benchmark_return64 = tot_b,
          asset_allocation64 = asset_allocation',
          selection64 = selection',
          interaction64 = interaction',
          total_difference64 = total_diff\<rparr>)"

text \<open>The example frame of the notebook, its literals read as doubles.\<close>

definition df_brinson_f64 :: DataFrame64 where
  "df_brinson_f64 =
     [\<lparr>AssetClass64 = ''Equity'', w_p64 = f64_of_ratio 60 100, r_p64 = f64_of_ratio 10 100,
       w_b64 = f64_of_ratio 50 100, r_b64 = f64_of_ratio 8 100\<rparr>,
      \<lparr>AssetClass64 = ''Bond'', w_p64 = f64_of_ratio 30 100, r_p64 = f64_of_ratio 2 100,
       w_b64 = f64_of_ratio 40 100, r_b64 = f64_of_ratio 3 100\<rparr>,
      \<lparr>AssetClass64 = ''RealEstate'', w_p64 = f64_of_ratio 10 100, r_p64 = f64_of_ratio 8 100,
       w_b64 = f64_of_ratio 10 100, r_b64 = f64_of_ratio 7 100\<rparr>]"

text \<open>
  Test data: two segments with the same weights 0.60 and 0.40 in portfolio and benchmark,
  and the returns of the first two rows of the example frame.
\<close>

definition df_equal_weights_f64 :: DataFrame64 where
  "df_equal_weights_f64 =
     [\<lparr>AssetClass64 = ''Equity'', w_p64 = f64_of_ratio 60 100, r_p64 = f64_of_ratio 10 100,
       w_b64 = f64_of_ratio 60 100, r_b64 = f64_of_ratio 8 100\<rparr>,
      \<lparr>AssetClass64 = ''Bond'', w_p64 = f64_of_ratio 40 100, r_p64 = f64_of_ratio 2 100,
       w_b64 = f64_of_ratio 40 100, r_b64 = f64_of_ratio 3 100\<rparr>]"

subsection \<open>Rounding and literals\<close>

text \<open>
  \<open>rne_shift\<close> returns a nearest integer: the result, scaled back, is at most half a unit
  of the kept position away from the exact value. A mantissa that fits is not touched.
\<close>

lemma rne_shift_nearest: "2 * \<bar>rne_shift m k * 2 ^ k - m\<bar> \<le> 2 ^ k"
proof -
  define q where "q = m div 2 ^ k"
  define r where "r = m mod 2 ^ k"
  have m: "m = q * 2 ^ k + r"
    unfolding q_def r_def by (rule div_mult_mod_eq [symmetric])
  have r: "0 \<le> r" "r < 2 ^ k"
    by (simp_all add: r_def)
  show ?thesis
    unfolding rne_shift_def Let_def q_def [symmetric] r_def [symmetric]
    using r by (auto simp add: m algebra_simps)
qed

lemma f64_round_exact: "bitlen \<bar>m\<bar> \<le> 53 \<Longrightarrow> f64_round m e = F64 m e"
  by (simp add: f64_round_def)


text \<open>
  The doubles of three literals, as Python's \<^verbatim>\<open>float.as_integer_ratio\<close> gives them:
  0.1 is 3602879701896397 / 2^55, 0.6 is 5404319552844595 / 2^53 and 0.02 is
  5764607523034235 / 2^58.
\<close>

lemma f64_of_ratio_examples:
  "f64_val (f64_of_ratio 10 100) = 3602879701896397 / 2 ^ 55"
  "f64_val (f64_of_ratio 60 100) = 5404319552844595 / 2 ^ 53"
  "f64_val (f64_of_ratio 2 100) = 5764607523034235 / 2 ^ 58"
  by code_simp+

lemmas series_defs = col_def series_mul_def series_sub_def series_sum_def

lemma map2_cols: "map2 f (map g df) (map h df) = map (\<lambda>s. f (g s) (h s)) df"
  by (induction df) simp_all

lemma sum_mul_cols:
  "series_sum (series_mul (map g df) (map h df)) = (\<Sum>s\<leftarrow>df. g s * h s)"
  by (simp add: series_sum_def series_mul_def map2_cols)

lemma sub_cols: "series_sub (map g df) (map h df) = map (\<lambda>s. g s - h s) df"
  by (simp add: series_sub_def map2_cols)

lemma brinson_fields:
  "portfolio_return (brinson_decomposition df) = (\<Sum>s\<leftarrow>df. w_p s * r_p s)"
  "benchmark_return (brinson_decomposition df) = (\<Sum>s\<leftarrow>df. w_b s * r_b s)"
  "asset_allocation (brinson_decomposition df) = (\<Sum>s\<leftarrow>df. (w_p s - w_b s) * r_b s)"
  "selection (brinson_decomposition df) = (\<Sum>s\<leftarrow>df. w_b s * (r_p s - r_b s))"
  "interaction (brinson_decomposition df) = (\<Sum>s\<leftarrow>df. (w_p s - w_b s) * (r_p s - r_b s))"
  "total_difference (brinson_decomposition df) =
     (\<Sum>s\<leftarrow>df. w_p s * r_p s) - (\<Sum>s\<leftarrow>df. w_b s * r_b s)"
  by (simp_all add: brinson_decomposition_def Let_def col_def sub_cols sum_mul_cols)

subsection \<open>Additivity\<close>

lemma sum_list_add_map: "(\<Sum>s\<leftarrow>xs. f s + g s) = (\<Sum>s\<leftarrow>xs. f s) + (\<Sum>s\<leftarrow>xs. (g s :: real))"
  by (induction xs) simp_all

lemma sum_list_diff_map: "(\<Sum>s\<leftarrow>xs. f s - g s) = (\<Sum>s\<leftarrow>xs. f s) - (\<Sum>s\<leftarrow>xs. (g s :: real))"
  by (induction xs) simp_all

lemma terms_add_up:
  "(\<Sum>s\<leftarrow>df. (w_p s - w_b s) * r_b s) + (\<Sum>s\<leftarrow>df. w_b s * (r_p s - r_b s))
     + (\<Sum>s\<leftarrow>df. (w_p s - w_b s) * (r_p s - r_b s))
   = (\<Sum>s\<leftarrow>df. w_p s * r_p s) - (\<Sum>s\<leftarrow>df. w_b s * r_b s)"
proof -
  have "(\<Sum>s\<leftarrow>df. (w_p s - w_b s) * r_b s) + (\<Sum>s\<leftarrow>df. w_b s * (r_p s - r_b s))
          + (\<Sum>s\<leftarrow>df. (w_p s - w_b s) * (r_p s - r_b s))
        = (\<Sum>s\<leftarrow>df. ((w_p s - w_b s) * r_b s + w_b s * (r_p s - r_b s))
                    + (w_p s - w_b s) * (r_p s - r_b s))"
    by (simp only: sum_list_add_map)
  also have "\<dots> = (\<Sum>s\<leftarrow>df. w_p s * r_p s - w_b s * r_b s)"
    by (rule arg_cong [where f = sum_list], rule map_cong) (simp_all add: algebra_simps)
  also have "\<dots> = (\<Sum>s\<leftarrow>df. w_p s * r_p s) - (\<Sum>s\<leftarrow>df. w_b s * r_b s)"
    by (rule sum_list_diff_map)
  finally show ?thesis .
qed

text \<open>
  C1. For every segment sequence, and so for every non-empty one, the three terms of the
  decomposition returned by \<open>brinson_decomposition\<close> add up to the total difference:
  asset allocation + selection + interaction = total difference, exactly, in real
  arithmetic.
\<close>

theorem brinson_additivity:
  "asset_allocation (brinson_decomposition df) + selection (brinson_decomposition df)
     + interaction (brinson_decomposition df)
   = total_difference (brinson_decomposition df)"
  by (simp only: brinson_fields terms_add_up)

subsection \<open>Agreement with the specification's formulas\<close>

text \<open>
  C2. For every segment sequence, and so for every non-empty one, \<open>brinson_decomposition\<close>
  returns exactly the six quantities of the specification's summation formulas: the
  column-wise computation of the notebook and the per-segment sums of the specification
  are the same result.
\<close>

theorem brinson_refines_spec: "brinson_decomposition df = spec_decompose df"
  by (simp add: brinson_decomposition_def spec_decompose_def Let_def col_def sub_cols
      sum_mul_cols)

subsection \<open>The example frame\<close>

text \<open>
  C3 as the specification states it fails: on the example frame the asset allocation is
  0.005, the selection 0.007 and the interaction 0.003, so they do not agree with the
  stated 0.006, 0.008 and 0.001 to three decimals (half a unit of the third decimal is
  0.0005).
\<close>

theorem reference_literal_counterexample:
  "\<not> (\<bar>portfolio_return (brinson_decomposition df_brinson) - 0.074\<bar> \<le> 0.0005
      \<and> \<bar>benchmark_return (brinson_decomposition df_brinson) - 0.059\<bar> \<le> 0.0005
      \<and> \<bar>asset_allocation (brinson_decomposition df_brinson) - 0.006\<bar> \<le> 0.0005
      \<and> \<bar>selection (brinson_decomposition df_brinson) - 0.008\<bar> \<le> 0.0005
      \<and> \<bar>interaction (brinson_decomposition df_brinson) - 0.001\<bar> \<le> 0.0005
      \<and> \<bar>total_difference (brinson_decomposition df_brinson) - 0.015\<bar> \<le> 0.0005)"
  by (simp add: brinson_decomposition_def df_brinson_def series_defs)

text \<open>
  C3, amended. On the three-segment example frame (Equity, Bond, RealEstate) the
  decomposition is, to 3-decimal rounding: portfolio return 0.074, benchmark return 0.059,
  asset allocation 0.005, selection 0.007, interaction 0.003, total difference 0.015.
  Each field is within half a unit of the third decimal of the value named.
\<close>

theorem reference_rounded:
  "\<bar>portfolio_return (brinson_decomposition df_brinson) - 0.074\<bar> \<le> 0.0005
   \<and> \<bar>benchmark_return (brinson_decomposition df_brinson) - 0.059\<bar> \<le> 0.0005
   \<and> \<bar>asset_allocation (brinson_decomposition df_brinson) - 0.005\<bar> \<le> 0.0005
   \<and> \<bar>selection (brinson_decomposition df_brinson) - 0.007\<bar> \<le> 0.0005
   \<and> \<bar>interaction (brinson_decomposition df_brinson) - 0.003\<bar> \<le> 0.0005
   \<and> \<bar>total_difference (brinson_decomposition df_brinson) - 0.015\<bar> \<le> 0.0005"
  by (simp add: brinson_decomposition_def df_brinson_def series_defs)

subsection \<open>No validation\<close>

text \<open>
  C4 as the specification states it fails: on the empty sequence the call does not raise
  \<open>InvalidInput\<close>.
\<close>

theorem decompose_empty_counterexample: "decompose [] \<noteq> Inl InvalidInput"
  by (simp add: decompose_def)

text \<open>
  C4, amended. The call never fails with \<open>InvalidInput\<close>, not on the empty sequence
  either: for every segment sequence, whatever its length and its weights (outside [0,1],
  not summing to 1), it validates nothing and returns the result computed as given by the
  six formulas.
\<close>

theorem decompose_never_fails:
  "decompose df = Inr (spec_decompose df) \<and> decompose df \<noteq> Inl InvalidInput"
  by (simp add: decompose_def brinson_decomposition_def spec_decompose_def Let_def col_def
      sub_cols sum_mul_cols)

subsection \<open>Exchanging portfolio and benchmark\<close>




subsection \<open>One segment at full weight\<close>

text \<open>
  C6. For a frame of exactly one segment with \<open>w_p = w_b = 1\<close> and any returns, the asset
  allocation is 0, the interaction is 0 and the selection is \<open>r_p - r_b\<close>.
\<close>

theorem single_full_weight:
  "w_p s = 1 \<Longrightarrow> w_b s = 1 \<Longrightarrow>
   asset_allocation (brinson_decomposition [s]) = 0
   \<and> interaction (brinson_decomposition [s]) = 0
   \<and> selection (brinson_decomposition [s]) = r_p s - r_b s"
  by (simp add: brinson_fields)

theorem single_full_weight_witness:
  "asset_allocation (brinson_decomposition
        [\<lparr>AssetClass = ''Equity'', w_p = 1, r_p = 0.10, w_b = 1, r_b = 0.08\<rparr>]) = 0
   \<and> interaction (brinson_decomposition
        [\<lparr>AssetClass = ''Equity'', w_p = 1, r_p = 0.10, w_b = 1, r_b = 0.08\<rparr>]) = 0
   \<and> selection (brinson_decomposition
        [\<lparr>AssetClass = ''Equity'', w_p = 1, r_p = 0.10, w_b = 1, r_b = 0.08\<rparr>]) = 0.02"
  using single_full_weight
    [of "\<lparr>AssetClass = ''Equity'', w_p = 1, r_p = 0.10, w_b = 1, r_b = 0.08\<rparr>"]
  by simp

subsection \<open>Equal weights and equal returns\<close>

lemma equal_weights_sums:
  assumes "\<forall>s\<in>set df. w_p s = w_b s"
  shows "(\<Sum>s\<leftarrow>df. (w_p s - w_b s) * r_b s) = 0"
    and "(\<Sum>s\<leftarrow>df. (w_p s - w_b s) * (r_p s - r_b s)) = 0"
  using assms by (induction df) simp_all

lemma equal_returns_sum:
  assumes "\<forall>s\<in>set df. r_p s = r_b s"
  shows "(\<Sum>s\<leftarrow>df. w_b s * (r_p s - r_b s)) = 0"
  using assms by (induction df) simp_all

text \<open>
  C7. For every segment sequence, and so for every non-empty one, in which every segment
  has \<open>w_p = w_b\<close> and \<open>r_p = r_b\<close>, the asset allocation, the selection, the interaction
  and the total difference are all exactly 0.
\<close>

theorem zero_difference:
  assumes "\<forall>s\<in>set df. w_p s = w_b s \<and> r_p s = r_b s"
  shows "asset_allocation (brinson_decomposition df) = 0
       \<and> selection (brinson_decomposition df) = 0
       \<and> interaction (brinson_decomposition df) = 0
       \<and> total_difference (brinson_decomposition df) = 0"
proof -
  from assms have w: "\<forall>s\<in>set df. w_p s = w_b s" and r: "\<forall>s\<in>set df. r_p s = r_b s"
    by simp_all
  have aa: "(\<Sum>s\<leftarrow>df. (w_p s - w_b s) * r_b s) = 0"
    and ia: "(\<Sum>s\<leftarrow>df. (w_p s - w_b s) * (r_p s - r_b s)) = 0"
    using equal_weights_sums [OF w] by simp_all
  have se: "(\<Sum>s\<leftarrow>df. w_b s * (r_p s - r_b s)) = 0"
    by (rule equal_returns_sum [OF r])
  have "(\<Sum>s\<leftarrow>df. w_p s * r_p s) - (\<Sum>s\<leftarrow>df. w_b s * r_b s) = 0"
    using terms_add_up [of df] aa ia se by simp
  with aa ia se show ?thesis
    by (simp add: brinson_fields)
qed

theorem zero_difference_witness:
  "asset_allocation (brinson_decomposition
        [\<lparr>AssetClass = ''Equity'', w_p = 0.60, r_p = 0.10, w_b = 0.60, r_b = 0.10\<rparr>,
         \<lparr>AssetClass = ''Bond'', w_p = 0.40, r_p = 0.02, w_b = 0.40, r_b = 0.02\<rparr>]) = 0
   \<and> selection (brinson_decomposition
        [\<lparr>AssetClass = ''Equity'', w_p = 0.60, r_p = 0.10, w_b = 0.60, r_b = 0.10\<rparr>,
         \<lparr>AssetClass = ''Bond'', w_p = 0.40, r_p = 0.02, w_b = 0.40, r_b = 0.02\<rparr>]) = 0
   \<and> interaction (brinson_decomposition
        [\<lparr>AssetClass = ''Equity'', w_p = 0.60, r_p = 0.10, w_b = 0.60, r_b = 0.10\<rparr>,
         \<lparr>AssetClass = ''Bond'', w_p = 0.40, r_p = 0.02, w_b = 0.40, r_b = 0.02\<rparr>]) = 0
   \<and> total_difference (brinson_decomposition
        [\<lparr>AssetClass = ''Equity'', w_p = 0.60, r_p = 0.10, w_b = 0.60, r_b = 0.10\<rparr>,
         \<lparr>AssetClass = ''Bond'', w_p = 0.40, r_p = 0.02, w_b = 0.40, r_b = 0.02\<rparr>]) = 0"
  by (rule zero_difference) simp

subsection \<open>The empty frame\<close>

text \<open>
  C8. On the empty segment sequence the call does not fail: it returns the result whose
  six fields are all exactly 0, every sum over the empty frame being 0.
\<close>

theorem empty_frame_all_zero:
  "decompose [] =
     Inr \<lparr>portfolio_return = 0, benchmark_return = 0, asset_allocation = 0,
          selection = 0, interaction = 0, total_difference = 0\<rparr>"
  by (simp add: decompose_def brinson_decomposition_def series_defs)

subsection \<open>Order of the segments\<close>

text \<open>
  C9 as stated fails on what the code computes: in doubles the sums are rounded after
  every addition, in row order. On the example frame the portfolio return is
  1333065489701667 / 2^54 (printed 0.07400000000000001), and on the same rows in reverse
  order it is 5332261958806667 / 2^56 (printed 0.074), one unit in the last place less.
\<close>

theorem segment_order_counterexample:
  "f64_val (portfolio_return64 (brinson_decomposition_f64 df_brinson_f64))
     = 1333065489701667 / 2 ^ 54
   \<and> f64_val (portfolio_return64 (brinson_decomposition_f64 (rev df_brinson_f64)))
     = 5332261958806667 / 2 ^ 56
   \<and> brinson_decomposition_f64 df_brinson_f64
     \<noteq> brinson_decomposition_f64 (rev df_brinson_f64)"
proof -
  have a: "f64_val (portfolio_return64 (brinson_decomposition_f64 df_brinson_f64))
             = 1333065489701667 / 2 ^ 54"
    by code_simp
  have b: "f64_val (portfolio_return64 (brinson_decomposition_f64 (rev df_brinson_f64)))
             = 5332261958806667 / 2 ^ 56"
    by code_simp
  have "brinson_decomposition_f64 df_brinson_f64
          \<noteq> brinson_decomposition_f64 (rev df_brinson_f64)"
  proof
    assume "brinson_decomposition_f64 df_brinson_f64
              = brinson_decomposition_f64 (rev df_brinson_f64)"
    then have "f64_val (portfolio_return64 (brinson_decomposition_f64 df_brinson_f64))
                 = f64_val (portfolio_return64 (brinson_decomposition_f64 (rev df_brinson_f64)))"
      by simp
    with a b show False
      by simp
  qed
  with a b show ?thesis
    by simp
qed

text \<open>
  C9, amended. Under exact real arithmetic, a frame and any permutation of it (a frame
  with the same multiset of rows) have the same decomposition: the result does not depend
  on the order of the segments.
\<close>

theorem segment_order_irrelevant:
  assumes "mset df = mset df'"
  shows "brinson_decomposition df = brinson_decomposition df'"
proof -
  have eq: "(\<Sum>s\<leftarrow>df. f s) = (\<Sum>s\<leftarrow>df'. f s)" for f :: "SegmentRecord \<Rightarrow> real"
  proof -
    have "mset (map f df) = mset (map f df')"
      using assms by simp
    then show ?thesis
      by (metis sum_mset_sum_list)
  qed
  show ?thesis
    by (simp add: brinson_decomposition_def Let_def col_def sub_cols sum_mul_cols eq [of _])
qed

theorem segment_order_irrelevant_witness:
  "brinson_decomposition df_brinson = brinson_decomposition (rev df_brinson)"
  by (rule segment_order_irrelevant) simp

subsection \<open>Equal weights, any returns\<close>

text \<open>
  C10 as stated fails on what the code computes: in doubles the selection and the total
  difference are rounded along different paths. On the two-row frame with equal weights
  the selection is 2305843009213695 / 2^58 (printed 0.008000000000000004) and the total
  difference is 9007199254741 / 2^50 (printed 0.008000000000000007).
\<close>

theorem equal_weights_counterexample:
  "map w_p64 df_equal_weights_f64 = map w_b64 df_equal_weights_f64
   \<and> f64_val (selection64 (brinson_decomposition_f64 df_equal_weights_f64))
     = 2305843009213695 / 2 ^ 58
   \<and> f64_val (total_difference64 (brinson_decomposition_f64 df_equal_weights_f64))
     = 9007199254741 / 2 ^ 50
   \<and> f64_val (selection64 (brinson_decomposition_f64 df_equal_weights_f64))
     \<noteq> f64_val (total_difference64 (brinson_decomposition_f64 df_equal_weights_f64))"
proof -
  have w: "map w_p64 df_equal_weights_f64 = map w_b64 df_equal_weights_f64"
    by (simp add: df_equal_weights_f64_def)
  have a: "f64_val (selection64 (brinson_decomposition_f64 df_equal_weights_f64))
             = 2305843009213695 / 2 ^ 58"
    by code_simp
  have b: "f64_val (total_difference64 (brinson_decomposition_f64 df_equal_weights_f64))
             = 9007199254741 / 2 ^ 50"
    by code_simp
  from w a b show ?thesis
    by simp
qed

text \<open>
  C10, amended. For every segment sequence, and so for every non-empty one, in which every
  segment has \<open>w_p = w_b\<close>, whatever the returns, the asset allocation is 0 and the
  interaction is 0; under exact real arithmetic the selection equals the total difference,
  so that the whole return gap is selection.
\<close>

theorem equal_weights_all_selection:
  assumes "\<forall>s\<in>set df. w_p s = w_b s"
  shows "asset_allocation (brinson_decomposition df) = 0
       \<and> interaction (brinson_decomposition df) = 0
       \<and> selection (brinson_decomposition df) = total_difference (brinson_decomposition df)"
proof -
  have aa: "(\<Sum>s\<leftarrow>df. (w_p s - w_b s) * r_b s) = 0"
    and ia: "(\<Sum>s\<leftarrow>df. (w_p s - w_b s) * (r_p s - r_b s)) = 0"
    using equal_weights_sums [OF assms] by simp_all
  have "(\<Sum>s\<leftarrow>df. w_b s * (r_p s - r_b s))
          = (\<Sum>s\<leftarrow>df. w_p s * r_p s) - (\<Sum>s\<leftarrow>df. w_b s * r_b s)"
    using terms_add_up [of df] aa ia by simp
  with aa ia show ?thesis
    by (simp add: brinson_fields)
qed

theorem equal_weights_all_selection_witness:
  "asset_allocation (brinson_decomposition
        [\<lparr>AssetClass = ''Equity'', w_p = 0.60, r_p = 0.10, w_b = 0.60, r_b = 0.08\<rparr>,
         \<lparr>AssetClass = ''Bond'', w_p = 0.40, r_p = 0.02, w_b = 0.40, r_b = 0.03\<rparr>]) = 0
   \<and> interaction (brinson_decomposition
        [\<lparr>AssetClass = ''Equity'', w_p = 0.60, r_p = 0.10, w_b = 0.60, r_b = 0.08\<rparr>,
         \<lparr>AssetClass = ''Bond'', w_p = 0.40, r_p = 0.02, w_b = 0.40, r_b = 0.03\<rparr>]) = 0
   \<and> selection (brinson_decomposition
        [\<lparr>AssetClass = ''Equity'', w_p = 0.60, r_p = 0.10, w_b = 0.60, r_b = 0.08\<rparr>,
         \<lparr>AssetClass = ''Bond'', w_p = 0.40, r_p = 0.02, w_b = 0.40, r_b = 0.03\<rparr>])
     = total_difference (brinson_decomposition
        [\<lparr>AssetClass = ''Equity'', w_p = 0.60, r_p = 0.10, w_b = 0.60, r_b = 0.08\<rparr>,
         \<lparr>AssetClass = ''Bond'', w_p = 0.40, r_p = 0.02, w_b = 0.40, r_b = 0.03\<rparr>])"
  by (rule equal_weights_all_selection) simp

end
